theory Spec2Isabelle
  imports Main "HOL-Library.AList" "HOL-Library.Sublist"
begin

section \<open>JavaScript strings\<close>

text \<open>
  A JavaScript string is a sequence of UTF-16 code units, and \<^verbatim>\<open>length\<close>,
  \<^verbatim>\<open>startsWith\<close>, \<^verbatim>\<open>replace\<close>, \<^verbatim>\<open>split\<close> and \<^verbatim>\<open>padStart\<close> count and
  compare code units. A code unit is its number, from 0 to 65535; no operation
  below leaves that range. \<open>str\<close> turns a literal of ASCII characters into its
  code units; the emoji of the source are written out as their code units below.
\<close>

type_synonym unit16 = int

type_synonym jsString = "unit16 list"

definition str :: "string \<Rightarrow> jsString" where
  "str s = map of_char s"

text \<open>
  The code units that \<^verbatim>\<open>trim()\<close> strips and \<^verbatim>\<open>\s\<close> matches (ECMAScript's
  WhiteSpace and LineTerminator): tab, line feed, vertical tab, form feed, carriage
  return, space, U+00A0, U+1680, U+2000 to U+200A, U+2028, U+2029, U+202F, U+205F,
  U+3000 and U+FEFF.
\<close>

definition isWhiteSpace :: "unit16 \<Rightarrow> bool" where
  "isWhiteSpace c =
     (c \<in> {0x0009, 0x000A, 0x000B, 0x000C, 0x000D, 0x0020, 0x00A0, 0x1680,
            0x2028, 0x2029, 0x202F, 0x205F, 0x3000, 0xFEFF}
      \<or> (0x2000 \<le> c \<and> c \<le> 0x200A))"

text \<open>\<^verbatim>\<open>s.trim()\<close>\<close>

definition js_trim :: "jsString \<Rightarrow> jsString" where
  "js_trim s = rev (dropWhile isWhiteSpace (rev (dropWhile isWhiteSpace s)))"

text \<open>\<^verbatim>\<open>s.split(/\s+/)\<close>: the pieces between maximal runs of white space (a leading
  or trailing run leaves an empty piece, as in JavaScript).\<close>

function js_split_ws :: "jsString \<Rightarrow> jsString list" where
  "js_split_ws s =
     (let tok = takeWhile (\<lambda>c. \<not> isWhiteSpace c) s;
          rest = dropWhile (\<lambda>c. \<not> isWhiteSpace c) s
      in if rest = [] then [tok] else tok # js_split_ws (dropWhile isWhiteSpace rest))"
  by pat_completeness auto
termination
proof (relation "measure length")
  show "wf (measure length)" by simp
next
  fix s :: jsString and tok rest
  assume r: "rest = dropWhile (\<lambda>c. \<not> isWhiteSpace c) s" and ne: "rest \<noteq> []"
  from ne obtain c r' where c: "rest = c # r'" by (cases rest) auto
  have "isWhiteSpace (hd rest)"
    using hd_dropWhile[of "\<lambda>c. \<not> isWhiteSpace c" s] ne r by simp
  then have "dropWhile isWhiteSpace rest = dropWhile isWhiteSpace r'" using c by simp
  then have "length (dropWhile isWhiteSpace rest) < length rest"
    using c length_dropWhile_le[of isWhiteSpace r'] by simp
  moreover have "length rest \<le> length s" using r by (simp add: length_dropWhile_le)
  ultimately show "(dropWhile isWhiteSpace rest, s) \<in> measure length" by simp
qed

text \<open>\<^verbatim>\<open>s.split('/')\<close>, for a separator of one code unit.\<close>

fun js_split :: "unit16 \<Rightarrow> jsString \<Rightarrow> jsString list" where
  "js_split sep [] = [[]]"
| "js_split sep (c # cs) =
     (if c = sep then [] # js_split sep cs
      else (case js_split sep cs of
              [] \<Rightarrow> [[c]]
            | t # ts \<Rightarrow> (c # t) # ts))"

text \<open>\<^verbatim>\<open>xs.join(sep)\<close>\<close>

fun js_join :: "jsString \<Rightarrow> jsString list \<Rightarrow> jsString" where
  "js_join sep [] = []"
| "js_join sep [x] = x"
| "js_join sep (x # y # ys) = x @ sep @ js_join sep (y # ys)"

definition js_startsWith :: "jsString \<Rightarrow> jsString \<Rightarrow> bool" where
  "js_startsWith s p = (take (length p) s = p)"

definition js_endsWith :: "jsString \<Rightarrow> jsString \<Rightarrow> bool" where
  "js_endsWith s p = (length p \<le> length s \<and> drop (length s - length p) s = p)"

text \<open>The first occurrence of \<open>p\<close> in a string: what stands before it and after it.\<close>

fun indexOfSplit :: "jsString \<Rightarrow> jsString \<Rightarrow> (jsString \<times> jsString) option" where
  "indexOfSplit p [] = (if p = [] then Some ([], []) else None)"
| "indexOfSplit p (c # cs) =
     (if js_startsWith (c # cs) p then Some ([], drop (length p) (c # cs))
      else (case indexOfSplit p cs of
              None \<Rightarrow> None
            | Some (pre, post) \<Rightarrow> Some (c # pre, post)))"

text \<open>
  The replacement text of \<^verbatim>\<open>String.prototype.replace\<close> for a string pattern
  (ECMAScript's GetSubstitution with no captures): \<^verbatim>\<open>$$\<close> is a dollar sign,
  \<^verbatim>\<open>$&\<close> the matched text, \<^verbatim>\<open>$`\<close> the text before the match and
  \<^verbatim>\<open>$'\<close> the text after it; every other code unit stands for itself.
\<close>

fun getSubstitution :: "jsString \<Rightarrow> jsString \<Rightarrow> jsString \<Rightarrow> jsString \<Rightarrow> jsString" where
  "getSubstitution matched pre post [] = []"
| "getSubstitution matched pre post [c] = [c]"
| "getSubstitution matched pre post (c # d # r) =
     (if c \<noteq> (of_char (CHR ''$'')) then c # getSubstitution matched pre post (d # r)
      else if d = (of_char (CHR ''$'')) then (of_char (CHR ''$'')) # getSubstitution matched pre post r
      else if d = (of_char (CHR ''&'')) then matched @ getSubstitution matched pre post r
      else if d = 0x60 then pre @ getSubstitution matched pre post r
      else if d = 0x27 then post @ getSubstitution matched pre post r
      else c # getSubstitution matched pre post (d # r))"

text \<open>\<^verbatim>\<open>s.replace(p, r)\<close> with a string pattern: the first occurrence only.\<close>

definition js_replace :: "jsString \<Rightarrow> jsString \<Rightarrow> jsString \<Rightarrow> jsString" where
  "js_replace s p r =
     (case indexOfSplit p s of
        None \<Rightarrow> s
      | Some (pre, post) \<Rightarrow> pre @ getSubstitution p pre post r @ post)"


text \<open>\<^verbatim>\<open>s.padStart(n)\<close> and \<^verbatim>\<open>n.toString()\<close> for a natural number.\<close>

definition js_padStart :: "nat \<Rightarrow> jsString \<Rightarrow> jsString" where
  "js_padStart n s = replicate (n - length s) (of_char (CHR '' '')) @ s"

definition digit :: "nat \<Rightarrow> unit16" where
  "digit d = int (48 + d)"

function js_toString :: "nat \<Rightarrow> jsString" where
  "js_toString n = (if n < 10 then [digit n] else js_toString (n div 10) @ [digit (n mod 10)])"
  by pat_completeness auto
termination
  by (relation "measure id") auto

text \<open>\<^verbatim>\<open>a || b\<close> on strings that may be undefined: the empty string is falsy.\<close>

definition orElse :: "jsString option \<Rightarrow> jsString \<Rightarrow> jsString" where
  "orElse a b = (case a of None \<Rightarrow> b | Some s \<Rightarrow> if s = [] then b else s)"

section \<open>JavaScript objects\<close>

text \<open>
  An object used as a dictionary is the list of its own properties in the order
  \<^verbatim>\<open>Object.keys\<close> gives them. Reading \<^verbatim>\<open>obj[k]\<close> also finds what every
  object inherits from \<^verbatim>\<open>Object.prototype\<close>: a function (or, for
  \<^verbatim>\<open>__proto__\<close>, the prototype itself), which is truthy and has none of the
  fields the program reads. Two corners of JavaScript are outside the model: a key
  that is an array index is enumerated before the other keys, and an assignment to
  the key \<^verbatim>\<open>__proto__\<close> sets the prototype instead of a property. The keys the
  program assigns to the command table are neither, and the order of the file
  system's keys is never read.
\<close>

datatype 'a property = Undefined | Own 'a | Inherited

definition objectPrototype :: "jsString list" where
  "objectPrototype =
     [str ''constructor'', str ''__defineGetter__'', str ''__defineSetter__'',
      str ''hasOwnProperty'', str ''__lookupGetter__'', str ''__lookupSetter__'',
      str ''isPrototypeOf'', str ''propertyIsEnumerable'', str ''toString'',
      str ''valueOf'', str ''__proto__'', str ''toLocaleString'']"

definition js_get :: "(jsString \<times> 'a) list \<Rightarrow> jsString \<Rightarrow> 'a property" where
  "js_get obj k =
     (case map_of obj k of
        Some v \<Rightarrow> Own v
      | None \<Rightarrow> if k \<in> set objectPrototype then Inherited else Undefined)"

text \<open>\<^verbatim>\<open>obj[k] = v\<close>: an existing key keeps its place, a new key goes last.\<close>

definition js_set :: "(jsString \<times> 'a) list \<Rightarrow> jsString \<Rightarrow> 'a \<Rightarrow> (jsString \<times> 'a) list" where
  "js_set obj k v = AList.update k v obj"

section \<open>Data model\<close>

text \<open>
  A command descriptor of the configuration: \<^verbatim>\<open>description\<close>, \<^verbatim>\<open>output\<close> (a
  string or an array of lines; the field is \<open>cmd_output\<close> here) and \<^verbatim>\<open>action\<close>,
  each of which may be missing. A node of the file system has the \<^verbatim>\<open>type\<close>
  \<^verbatim>\<open>directory\<close> or \<^verbatim>\<open>file\<close>.
\<close>

datatype cmdOutput = Text jsString | Lines "jsString list"

record cmdObj =
  description :: "jsString option"
  cmd_output :: "cmdOutput option"
  action :: "jsString option"

datatype fsNode =
    Directory (contents: "jsString list") (parent: jsString)
  | File (content: jsString) (parent: jsString)

record systemInfo =
  user :: jsString
  host :: jsString
  commandNotFound :: jsString

record config =
  system :: systemInfo
  filesystem :: "(jsString \<times> jsString list) list"
  files :: "(jsString \<times> jsString) list"
  motd :: "jsString list option"
  commands :: "(jsString \<times> cmdObj) list"

record distroInfo =
  distroName :: jsString
  configFile :: jsString
  icon :: jsString
  distroDescription :: jsString

text \<open>
  The repository holds the terminal twice: \<^verbatim>\<open>src/script.js\<close> reads one
  configuration, \<^verbatim>\<open>src/unnamed/part_001\<close> chooses among several distributions.
  The functions below are the same text in both files unless they take a
  \<open>variant\<close>.
\<close>

datatype variant = SingleConfig | MultiDistro

text \<open>
  The fields of \<^verbatim>\<open>WebTerminal\<close>, with the two DOM elements the interpreter reads
  and writes (the lines of \<^verbatim>\<open>terminalOutput\<close>, each with its style class, and the
  value of \<^verbatim>\<open>commandInput\<close>), what \<^verbatim>\<open>new Date().toString()\<close> returns, and
  the distribution a scheduled page reload will load.
\<close>

record WebTerminal =
  distributions :: "(jsString \<times> distroInfo) list"
  currentDistro :: "jsString option"
  config :: config
  commandHistory :: "jsString list"
  historyIndex :: nat
  currentPath :: jsString
  commandCount :: nat
  currentTheme :: jsString
  suggestions :: "(jsString \<times> jsString) list"
  selectedSuggestionIndex :: int
  fileSystem :: "(jsString \<times> fsNode) list"
  terminalOutput :: "(jsString \<times> jsString) list"
  commandInput :: jsString
  dateString :: jsString
  reloadDistro :: "jsString option"

section \<open>Text constants of the source\<close>

definition FILE_FOLDER :: jsString where
  "FILE_FOLDER = [0xD83D, 0xDCC1]"

definition PAGE_FACING_UP :: jsString where
  "PAGE_FACING_UP = [0xD83D, 0xDCC4]"

definition WASTEBASKET :: jsString where
  "WASTEBASKET = [0xD83D, 0xDDD1, 0xFE0F]"

definition ARTIST_PALETTE :: jsString where
  "ARTIST_PALETTE = [0xD83C, 0xDFA8]"

definition SCROLL :: jsString where
  "SCROLL = [0xD83D, 0xDCDC]"

definition CLIPBOARD :: jsString where
  "CLIPBOARD = [0xD83D, 0xDCCB]"

definition BOX_LINE :: jsString where
  "BOX_LINE = [0x2500]"

definition LIGHT_BULB :: jsString where
  "LIGHT_BULB = [0xD83D, 0xDCA1]"

definition BULLET :: jsString where
  "BULLET = [0x2022]"

definition UP_ARROW :: jsString where
  "UP_ARROW = [0x2191]"

definition DOWN_ARROW :: jsString where
  "DOWN_ARROW = [0x2193]"

definition PENGUIN :: jsString where
  "PENGUIN = [0xD83D, 0xDC27]"

definition CROSS_MARK :: jsString where
  "CROSS_MARK = [0x274C]"

definition CHECK_MARK :: jsString where
  "CHECK_MARK = [0x2705]"

definition ARROWS_BUTTON :: jsString where
  "ARROWS_BUTTON = [0xD83D, 0xDD04]"

section \<open>Rendering\<close>

text \<open>\<^verbatim>\<open>renderLine(text, className = '')\<close> appends one line to the output.\<close>

definition renderLine :: "jsString \<Rightarrow> jsString \<Rightarrow> WebTerminal \<Rightarrow> WebTerminal" where
  "renderLine text className t = t\<lparr>terminalOutput := terminalOutput t @ [(text, className)]\<rparr>"

definition clearScreen :: "WebTerminal \<Rightarrow> WebTerminal" where
  "clearScreen t = t\<lparr>terminalOutput := []\<rparr>"

definition hideSuggestions :: "WebTerminal \<Rightarrow> WebTerminal" where
  "hideSuggestions t = t\<lparr>suggestions := [], selectedSuggestionIndex := - 1\<rparr>"

section \<open>The simulated file system\<close>

text \<open>\<^verbatim>\<open>getParentPath(path)\<close> (part_001, lines 194-198).\<close>

definition getParentPath :: "jsString \<Rightarrow> jsString" where
  "getParentPath path =
     (let parts = filter (\<lambda>part. part \<noteq> []) (js_split (of_char (CHR ''/'')) path)
      in if length parts \<le> 1 then str ''/''
         else str ''/'' @ js_join (str ''/'') (butlast parts))"

text \<open>
  \<^verbatim>\<open>setupFileSystemFromConfig()\<close> (part_001, lines 154-189). \<open>addSubdirectory\<close> is
  the body of the inner \<^verbatim>\<open>forEach\<close>, \<open>addDirectory\<close> the body of the first loop and
  \<open>addFile\<close> the body of the second.
\<close>

definition addSubdirectory ::
  "jsString \<Rightarrow> jsString \<Rightarrow> (jsString \<times> fsNode) list \<Rightarrow> (jsString \<times> fsNode) list" where
  "addSubdirectory fullPath dir fs =
     (let dirName = js_replace dir (str ''/'') [];
          dirPath = fullPath @ str ''/'' @ dirName
      in js_set fs dirPath (Directory [] fullPath))"

definition addDirectory ::
  "jsString \<Rightarrow> jsString \<times> jsString list \<Rightarrow> (jsString \<times> fsNode) list \<Rightarrow> (jsString \<times> fsNode) list" where
  "addDirectory usr entry fs =
     (let path = fst entry;
          entries = snd entry;
          fullPath = js_replace path (str ''~'') (str ''/home/'' @ usr);
          fs1 = js_set fs fullPath
                  (Directory
                     (map (\<lambda>item. js_replace item (str ''/'') [])
                        (filter (\<lambda>item. \<not> js_endsWith item (str ''/'')) entries))
                     (getParentPath fullPath))
      in fold (addSubdirectory fullPath) (filter (\<lambda>item. js_endsWith item (str ''/'')) entries) fs1)"

definition addFile ::
  "jsString \<Rightarrow> jsString \<times> jsString \<Rightarrow> (jsString \<times> fsNode) list \<Rightarrow> (jsString \<times> fsNode) list" where
  "addFile usr entry fs =
     (let filename = fst entry;
          text = snd entry;
          filePath = str ''/home/'' @ usr @ str ''/'' @ filename
      in js_set fs filePath (File text (str ''/home/'' @ usr)))"

definition buildFileSystem :: "config \<Rightarrow> (jsString \<times> fsNode) list" where
  "buildFileSystem cfg =
     (let usr = user (system cfg);
          dirs = fold (addDirectory usr) (filesystem cfg) []
      in fold (addFile usr) (files cfg) dirs)"

definition setupFileSystemFromConfig :: "WebTerminal \<Rightarrow> WebTerminal" where
  "setupFileSystemFromConfig t = t\<lparr>fileSystem := buildFileSystem (config t)\<rparr>"

text \<open>The file system that \<^verbatim>\<open>script.js\<close> writes out in its constructor (lines 31-52).\<close>

definition scriptFileSystem :: "(jsString \<times> fsNode) list" where
  "scriptFileSystem =
     [(str ''/home/user'', Directory [str ''README.md'', str ''notes.txt'', str ''projects''] (str ''/home'')),
      (str ''/home/user/projects'', Directory [str ''secret-project'', str ''old-stuff''] (str ''/home/user'')),
      (str ''/home/user/README.md'',
         File (str ''Welcome to the interactive web terminal!'' @ [0x0A, 0x0A]
               @ str ''- Type '' @ [0x27] @ str ''help'' @ [0x27]
               @ str '' to see available commands.'' @ [0x0A]
               @ str ''- This is a simulation, not a real shell.'' @ [0x0A]
               @ str ''- You can create your own config file for other Linux distros.'')
              (str ''/home/user'')),
      (str ''/home/user/notes.txt'',
         File (str ''Todo:'' @ [0x0A] @ str ''- Learn more about Arch Linux.'' @ [0x0A]
               @ str ''- Customize this terminal further.'')
              (str ''/home/user''))]"

section \<open>The command table\<close>

definition actionCommand :: "jsString \<Rightarrow> jsString \<Rightarrow> cmdObj" where
  "actionCommand d a = \<lparr>description = Some d, cmd_output = None, action = Some a\<rparr>"

text \<open>\<^verbatim>\<open>coreCommands\<close> of part_001 (lines 256-289).\<close>

definition coreCommands :: "(jsString \<times> cmdObj) list" where
  "coreCommands =
     [(str ''cd'', actionCommand (str ''Change the current directory'') (str ''changeDirectory'')),
      (str ''mkdir'', actionCommand (str ''Create a new directory'') (str ''makeDirectory'')),
      (str ''touch'', actionCommand (str ''Create a new file'') (str ''createFile'')),
      (str ''rm'', actionCommand (str ''Remove files or directories'') (str ''removeFile'')),
      (str ''date'', actionCommand (str ''Display the current date and time'') (str ''showDate'')),
      (str ''history'', actionCommand (str ''Show command history'') (str ''showHistory'')),
      (str ''theme'', actionCommand (str ''Toggle between light and dark themes'') (str ''toggleTheme'')),
      (str ''clear'', actionCommand (str ''Clear the terminal screen'') (str ''clearScreen''))]"

text \<open>\<^verbatim>\<open>additionalCommands\<close> of script.js (lines 132-169).\<close>

definition additionalCommands :: "jsString \<Rightarrow> (jsString \<times> cmdObj) list" where
  "additionalCommands usr =
     [(str ''cd'', actionCommand (str ''Change the current directory'') (str ''changeDirectory'')),
      (str ''mkdir'', actionCommand (str ''Create a new directory'') (str ''makeDirectory'')),
      (str ''touch'', actionCommand (str ''Create a new file'') (str ''createFile'')),
      (str ''rm'', actionCommand (str ''Remove files or directories'') (str ''removeFile'')),
      (str ''whoami'', \<lparr>description = Some (str ''Print the current username''),
                    cmd_output = Some (Text usr), action = None\<rparr>),
      (str ''date'', actionCommand (str ''Display the current date and time'') (str ''showDate'')),
      (str ''history'', actionCommand (str ''Show command history'') (str ''showHistory'')),
      (str ''theme'', actionCommand (str ''Toggle between light and dark themes'') (str ''toggleTheme'')),
      (str ''clear'', actionCommand (str ''Clear the terminal screen'') (str ''clearScreen''))]"

definition switchDistroCommand :: cmdObj where
  "switchDistroCommand =
     actionCommand (str ''Switch to a different Linux distribution'') (str ''switchDistro'')"

definition listDistrosCommand :: cmdObj where
  "listDistrosCommand = actionCommand (str ''List available Linux distributions'') (str ''listDistros'')"

text \<open>One round of the loop \<^verbatim>\<open>if (!this.config.commands[cmd]) ...\<close> (part_001, 292-296).\<close>

definition mergeCore :: "jsString \<times> cmdObj \<Rightarrow> (jsString \<times> cmdObj) list \<Rightarrow> (jsString \<times> cmdObj) list" where
  "mergeCore entry cmds =
     (if js_get cmds (fst entry) = Undefined then js_set cmds (fst entry) (snd entry) else cmds)"

text \<open>\<^verbatim>\<open>if (commands[k]) commands[k].output = v\<close> (part_001, 299-304).\<close>

definition stampOutput :: "jsString \<Rightarrow> jsString \<Rightarrow> (jsString \<times> cmdObj) list \<Rightarrow> (jsString \<times> cmdObj) list" where
  "stampOutput k v cmds =
     (case js_get cmds k of
        Own c \<Rightarrow> js_set cmds k (c\<lparr>cmd_output := Some (Text v)\<rparr>)
      | Inherited \<Rightarrow> cmds
      | Undefined \<Rightarrow> cmds)"

text \<open>
  \<^verbatim>\<open>enhanceConfig()\<close>, on the command table: script.js (lines 131-172) spreads
  \<^verbatim>\<open>additionalCommands\<close> over the configuration's commands; part_001 (lines
  242-305) sets the two distribution commands, adds the core commands the table
  lacks, and stamps \<^verbatim>\<open>whoami\<close> and \<^verbatim>\<open>pwd\<close>.
\<close>

definition enhanceCommands ::
  "variant \<Rightarrow> jsString \<Rightarrow> jsString \<Rightarrow> (jsString \<times> cmdObj) list \<Rightarrow> (jsString \<times> cmdObj) list" where
  "enhanceCommands v usr cwd cmds =
     (case v of
        SingleConfig \<Rightarrow> fold (\<lambda>entry c. js_set c (fst entry) (snd entry)) (additionalCommands usr) cmds
      | MultiDistro \<Rightarrow>
          (let c1 = js_set cmds (str ''switch-distro'') switchDistroCommand;
               c2 = js_set c1 (str ''list-distros'') listDistrosCommand;
               c3 = fold mergeCore coreCommands c2;
               c4 = stampOutput (str ''whoami'') usr c3
           in stampOutput (str ''pwd'') cwd c4))"

definition enhanceConfig :: "variant \<Rightarrow> WebTerminal \<Rightarrow> WebTerminal" where
  "enhanceConfig v t =
     t\<lparr>config := (config t)\<lparr>commands :=
          enhanceCommands v (user (system (config t))) (currentPath t) (commands (config t))\<rparr>\<rparr>"

text \<open>
  \<^verbatim>\<open>loadConfig()\<close> once the configuration has been fetched and parsed (script.js,
  lines 117-126; part_001, lines 130-149).
\<close>

definition loadConfig :: "variant \<Rightarrow> config \<Rightarrow> WebTerminal \<Rightarrow> WebTerminal" where
  "loadConfig v cfg t =
     (case v of
        SingleConfig \<Rightarrow> enhanceConfig v (t\<lparr>config := cfg\<rparr>)
      | MultiDistro \<Rightarrow>
          (let t1 = setupFileSystemFromConfig (t\<lparr>config := cfg\<rparr>);
               t2 = t1\<lparr>currentPath := str ''/home/'' @ user (system cfg)\<rparr>
           in enhanceConfig v t2))"

text \<open>The constructor; \<^verbatim>\<open>this.config = {}\<close> stands until \<open>loadConfig\<close> replaces it.\<close>

definition emptyConfig :: config where
  "emptyConfig =
     \<lparr>system = \<lparr>user = [], host = [], commandNotFound = []\<rparr>,
      filesystem = [], files = [], motd = None, commands = []\<rparr>"

definition newWebTerminal :: "variant \<Rightarrow> WebTerminal" where
  "newWebTerminal v =
     \<lparr>distributions = [], currentDistro = None, config = emptyConfig,
      commandHistory = [], historyIndex = 0, currentPath = str ''/home/user'',
      commandCount = 0, currentTheme = str ''dark'', suggestions = [],
      selectedSuggestionIndex = - 1,
      fileSystem = (case v of SingleConfig \<Rightarrow> scriptFileSystem | MultiDistro \<Rightarrow> []),
      terminalOutput = [], commandInput = [], dateString = [], reloadDistro = None\<rparr>"

section \<open>The interpreter\<close>

text \<open>\<^verbatim>\<open>args[0]\<close>, undefined when there is no argument, and what a template literal
  prints for it.\<close>

definition firstArg :: "jsString list \<Rightarrow> jsString option" where
  "firstArg args = (case args of [] \<Rightarrow> None | a # rest \<Rightarrow> Some a)"

definition js_String :: "jsString option \<Rightarrow> jsString" where
  "js_String a = (case a of None \<Rightarrow> (str ''undefined'') | Some s \<Rightarrow> s)"

text \<open>\<^verbatim>\<open>!x\<close> for a string that may be undefined.\<close>

definition falsy :: "jsString option \<Rightarrow> bool" where
  "falsy a = (case a of None \<Rightarrow> True | Some s \<Rightarrow> s = [])"

text \<open>\<^verbatim>\<open>resolvePath(path)\<close> (script.js, lines 501-518; part_001, lines 716-733).\<close>

definition resolvePath :: "jsString option \<Rightarrow> WebTerminal \<Rightarrow> jsString" where
  "resolvePath path t =
     (case path of
        None \<Rightarrow> currentPath t
      | Some p \<Rightarrow>
          if p = [] then currentPath t
          else if js_startsWith p (str ''/'') then p
          else if p = str ''..'' then
            (case js_get (fileSystem t) (currentPath t) of
               Undefined \<Rightarrow> currentPath t
             | Inherited \<Rightarrow> currentPath t
             | Own currentObj \<Rightarrow>
                 if parent currentObj = [] then currentPath t else parent currentObj)
          else if p = str ''.'' then currentPath t
          else js_replace (currentPath t @ str ''/'' @ p) (str ''//'') (str ''/''))"

text \<open>\<^verbatim>\<open>handleCat(args)\<close> (part_001, lines 627-648).\<close>

definition handleCat :: "jsString list \<Rightarrow> WebTerminal \<Rightarrow> WebTerminal" where
  "handleCat args t =
     (case args of
        [] \<Rightarrow> renderLine (str ''cat: missing file operand'') (str ''output-error'') t
      | fileName # rest \<Rightarrow>
          (case js_get (fileSystem t) (resolvePath (Some fileName) t) of
             Undefined \<Rightarrow>
               renderLine (str ''cat: '' @ fileName @ str '': No such file or directory'')
                 (str ''output-error'') t
           | Inherited \<Rightarrow>
               renderLine (str ''cat: '' @ fileName @ str '': Is a directory'') (str ''output-error'') t
           | Own (Directory entries p) \<Rightarrow>
               renderLine (str ''cat: '' @ fileName @ str '': Is a directory'') (str ''output-error'') t
           | Own (File text p) \<Rightarrow> renderLine text [] t))"

text \<open>The function mapped over \<^verbatim>\<open>dirObj.contents\<close> in \<^verbatim>\<open>handleLs\<close>.\<close>

definition lsItem :: "(jsString \<times> fsNode) list \<Rightarrow> jsString \<Rightarrow> jsString \<Rightarrow> jsString" where
  "lsItem fs targetPath item =
     (case js_get fs (js_replace (targetPath @ str ''/'' @ item) (str ''//'') (str ''/'')) of
        Own (Directory entries p) \<Rightarrow> FILE_FOLDER @ str '' '' @ item @ str ''/''
      | Own (File text p) \<Rightarrow> PAGE_FACING_UP @ str '' '' @ item
      | Inherited \<Rightarrow> PAGE_FACING_UP @ str '' '' @ item
      | Undefined \<Rightarrow> PAGE_FACING_UP @ str '' '' @ item)"

text \<open>\<^verbatim>\<open>handleLs(args)\<close> (script.js, lines 438-469; part_001, lines 653-684).\<close>

definition handleLs :: "jsString list \<Rightarrow> WebTerminal \<Rightarrow> WebTerminal" where
  "handleLs args t =
     (let targetPath = (if length args > 0 then resolvePath (firstArg args) t
                        else currentPath t)
      in case js_get (fileSystem t) targetPath of
           Undefined \<Rightarrow>
             renderLine (str ''ls: cannot access '' @ [0x27] @ orElse (firstArg args) (str ''.'')
                         @ [0x27] @ str '': No such file or directory'') (str ''output-error'') t
         | Inherited \<Rightarrow>
             renderLine (str ''ls: '' @ js_String (firstArg args) @ str '': Not a directory'')
               (str ''output-error'') t
         | Own (File text p) \<Rightarrow>
             renderLine (str ''ls: '' @ js_String (firstArg args) @ str '': Not a directory'')
               (str ''output-error'') t
         | Own (Directory entries p) \<Rightarrow>
             if entries = [] then t
             else renderLine (js_join (str ''  '') (map (lsItem (fileSystem t) targetPath) entries))
                    [] t)"

text \<open>\<^verbatim>\<open>changeDirectory(path)\<close> (script.js, lines 474-496; part_001, lines 689-711).
  \<^verbatim>\<open>updatePath()\<close> only redraws the prompt and the path label.\<close>

definition changeDirectory :: "jsString option \<Rightarrow> WebTerminal \<Rightarrow> WebTerminal" where
  "changeDirectory path t =
     (if falsy path \<or> path = Some (str ''~'') then t\<lparr>currentPath := (str ''/home/user'')\<rparr>
      else
        (let targetPath = resolvePath path t
         in case js_get (fileSystem t) targetPath of
              Undefined \<Rightarrow>
                renderLine (str ''cd: '' @ js_String path @ str '': No such file or directory'')
                  (str ''output-error'') t
            | Inherited \<Rightarrow>
                renderLine (str ''cd: '' @ js_String path @ str '': Not a directory'')
                  (str ''output-error'') t
            | Own (File text p) \<Rightarrow>
                renderLine (str ''cd: '' @ js_String path @ str '': Not a directory'')
                  (str ''output-error'') t
            | Own (Directory entries p) \<Rightarrow> t\<lparr>currentPath := targetPath\<rparr>))"

text \<open>The mock file operations (script.js, lines 852-874; part_001, lines 1077-1099).\<close>

definition makeDirectory :: "jsString option \<Rightarrow> WebTerminal \<Rightarrow> WebTerminal" where
  "makeDirectory name t =
     (if falsy name then renderLine (str ''mkdir: missing operand'') (str ''output-error'') t
      else renderLine (FILE_FOLDER @ str '' Created directory: '' @ js_String name)
             (str ''output-success'') t)"

definition createFile :: "jsString option \<Rightarrow> WebTerminal \<Rightarrow> WebTerminal" where
  "createFile name t =
     (if falsy name then renderLine (str ''touch: missing operand'') (str ''output-error'') t
      else renderLine (PAGE_FACING_UP @ str '' Created file: '' @ js_String name)
             (str ''output-success'') t)"

definition removeFile :: "jsString option \<Rightarrow> WebTerminal \<Rightarrow> WebTerminal" where
  "removeFile name t =
     (if falsy name then renderLine (str ''rm: missing operand'') (str ''output-error'') t
      else renderLine (WASTEBASKET @ str '' Removed: '' @ js_String name) (str ''output-warning'') t)"

text \<open>\<^verbatim>\<open>showHistory()\<close> (part_001, lines 738-748).\<close>

definition showHistory :: "WebTerminal \<Rightarrow> WebTerminal" where
  "showHistory t =
     (if commandHistory t = [] then renderLine (str ''No commands in history'') [] t
      else fold (\<lambda>entry. renderLine (str ''  '' @ js_padStart 3 (js_toString (fst entry + 1))
                                     @ str '' '' @ snd entry) [])
             (enumerate 0 (commandHistory t))
             (renderLine (SCROLL @ str '' Command History:'') [] t))"

text \<open>\<^verbatim>\<open>showHelp()\<close> (part_001, lines 551-566).\<close>

definition showHelp :: "WebTerminal \<Rightarrow> WebTerminal" where
  "showHelp t =
     (let t1 = renderLine (CLIPBOARD @ str '' Available Commands:'') (str ''output-success'') t;
          t2 = renderLine (concat (replicate 50 BOX_LINE)) [] t1;
          t3 = fold (\<lambda>entry. renderLine (str ''  '' @ fst entry
                                          @ replicate (15 - length (fst entry)) (of_char (CHR '' ''))
                                          @ orElse (description (snd entry)) (str ''No description''))
                                [])
                 (commands (config t)) t2;
          t4 = renderLine [] [] t3;
          t5 = renderLine (LIGHT_BULB @ str '' Tips:'') [] t4;
          t6 = renderLine (str ''  '' @ BULLET @ str '' Use Tab for auto-completion'') [] t5;
          t7 = renderLine (str ''  '' @ BULLET @ str '' Use '' @ UP_ARROW @ str ''/'' @ DOWN_ARROW
                           @ str '' arrows for command history'') [] t6
      in renderLine (str ''  '' @ BULLET @ str '' Type '' @ [0x22] @ str ''theme'' @ [0x22]
                 @ str '' to toggle dark/light mode'') [] t7)"

text \<open>\<^verbatim>\<open>toggleTheme()\<close> (part_001, lines 893-897); \<^verbatim>\<open>applyTheme\<close> only restyles
  the page and stores the preference.\<close>

definition toggleTheme :: "WebTerminal \<Rightarrow> WebTerminal" where
  "toggleTheme t =
     (let theme = (if currentTheme t = str ''dark'' then str ''light'' else str ''dark'')
      in renderLine (ARTIST_PALETTE @ str '' Switched to '' @ theme @ str '' theme'') (str ''output-success'')
           (t\<lparr>currentTheme := theme\<rparr>))"

text \<open>\<^verbatim>\<open>listDistros()\<close> (part_001, lines 571-586).\<close>

definition listDistro :: "jsString \<times> distroInfo \<Rightarrow> WebTerminal \<Rightarrow> WebTerminal" where
  "listDistro entry t =
     (let key = fst entry;
          distro = snd entry;
          current = (if Some key = currentDistro t then str '' (current)'' else []);
          status = (if Some key = currentDistro t then str ''output-success'' else []);
          t1 = renderLine (str ''  '' @ icon distro @ str '' '' @ distroName distro @ current) status t;
          t2 = renderLine (str ''     '' @ distroDescription distro) [] t1;
          t3 = renderLine (str ''     Command: switch-distro '' @ key) [] t2
      in renderLine [] [] t3)"

definition listDistros :: "WebTerminal \<Rightarrow> WebTerminal" where
  "listDistros t =
     (let t1 = renderLine (PENGUIN @ str '' Available Linux Distributions:'') (str ''output-success'') t;
          t2 = renderLine (concat (replicate 50 BOX_LINE)) [] t1;
          t3 = fold listDistro (distributions t) t2;
          t4 = renderLine (LIGHT_BULB @ str '' Usage: switch-distro <distro-name>'') [] t3
      in renderLine (str ''   Example: switch-distro ubuntu'') [] t4)"

text \<open>
  \<^verbatim>\<open>distributions[distroName].name\<close>: for an inherited property the name of the
  function found there (\<^verbatim>\<open>Object\<close> for \<^verbatim>\<open>constructor\<close>); the prototype itself
  has no name.
\<close>

definition nameOfDistro :: "(jsString \<times> distroInfo) list \<Rightarrow> jsString \<Rightarrow> jsString" where
  "nameOfDistro ds k =
     (case js_get ds k of
        Own d \<Rightarrow> distroName d
      | Inherited \<Rightarrow> if k = str ''constructor'' then str ''Object''
                     else if k = str ''__proto__'' then str ''undefined'' else k
      | Undefined \<Rightarrow> (str ''undefined''))"

text \<open>\<^verbatim>\<open>switchDistro(distroName)\<close> (part_001, lines 591-622). The stored preference and
  the reload after one second are the field \<open>reloadDistro\<close>.\<close>

definition switchDistro :: "jsString option \<Rightarrow> WebTerminal \<Rightarrow> WebTerminal" where
  "switchDistro distro t =
     (if falsy distro then
        renderLine (LIGHT_BULB @ str '' Available distros: ''
                    @ js_join (str '', '') (map fst (distributions t))) []
          (renderLine (CROSS_MARK @ str '' Usage: switch-distro <distro-name>'') (str ''output-error'') t)
      else if js_get (distributions t) (js_String distro) = Undefined then
        renderLine (LIGHT_BULB @ str '' Use '' @ [0x22] @ str ''list-distros'' @ [0x22]
                    @ str '' to see available options'') []
          (renderLine (CROSS_MARK @ str '' Unknown distribution: '' @ js_String distro)
             (str ''output-error'') t)
      else if distro = currentDistro t then
        renderLine (CHECK_MARK @ str '' Already using ''
                    @ nameOfDistro (distributions t) (js_String distro)) (str ''output-success'') t
      else
        (renderLine (ARROWS_BUTTON @ str '' Switching to ''
                     @ nameOfDistro (distributions t) (js_String distro) @ str ''...'')
           (str ''output-success'') t)\<lparr>reloadDistro := distro\<rparr>)"

text \<open>
  The first \<^verbatim>\<open>switch\<close> of \<^verbatim>\<open>handleCommand\<close>, on the action tag: \<open>Some\<close> of the
  new state where a case returns, \<open>None\<close> where no case matches and control falls
  through to the built-in commands. script.js has no case for the two distribution
  actions.
\<close>

definition runAction ::
  "variant \<Rightarrow> jsString \<Rightarrow> jsString list \<Rightarrow> WebTerminal \<Rightarrow> WebTerminal option" where
  "runAction v a args t =
     (if a = str ''clearScreen'' then Some (clearScreen t)
      else if a = str ''showDate'' then Some (renderLine (dateString t) [] t)
      else if a = str ''showHistory'' then Some (showHistory t)
      else if a = str ''toggleTheme'' then Some (toggleTheme t)
      else if a = str ''changeDirectory'' then Some (changeDirectory (firstArg args) t)
      else if a = str ''makeDirectory'' then Some (makeDirectory (firstArg args) t)
      else if a = str ''createFile'' then Some (createFile (firstArg args) t)
      else if a = str ''removeFile'' then Some (removeFile (firstArg args) t)
      else if a = str ''switchDistro'' \<and> v = MultiDistro then Some (switchDistro (firstArg args) t)
      else if a = str ''listDistros'' \<and> v = MultiDistro then Some (listDistros t)
      else None)"

text \<open>The \<^verbatim>\<open>default\<close> branch of the second \<^verbatim>\<open>switch\<close>: the static output.\<close>

definition renderOutput :: "cmdOutput option \<Rightarrow> WebTerminal \<Rightarrow> WebTerminal" where
  "renderOutput out t =
     (case out of
        None \<Rightarrow> t
      | Some (Text s) \<Rightarrow> if s = [] then t else renderLine s [] t
      | Some (Lines ls) \<Rightarrow> fold (\<lambda>line. renderLine line []) ls t)"

definition runBuiltin :: "cmdObj \<Rightarrow> jsString list \<Rightarrow> jsString \<Rightarrow> WebTerminal \<Rightarrow> WebTerminal" where
  "runBuiltin c args command t =
     (if command = str ''help'' then showHelp t
      else if command = str ''echo'' then renderLine (js_join (str '' '') args) [] t
      else if command = str ''cat'' then handleCat args t
      else if command = str ''ls'' then handleLs args t
      else if command = str ''pwd'' then renderLine (currentPath t) [] t
      else renderOutput (cmd_output c) t)"

text \<open>\<^verbatim>\<open>handleCommand(cmdObj, args, command)\<close> (script.js, lines 329-387; part_001,
  lines 482-546).\<close>

definition handleCommand ::
  "variant \<Rightarrow> cmdObj \<Rightarrow> jsString list \<Rightarrow> jsString \<Rightarrow> WebTerminal \<Rightarrow> WebTerminal" where
  "handleCommand v c args command t =
     (case (if falsy (action c) then None else runAction v (js_String (action c)) args t) of
        Some t' \<Rightarrow> t'
      | None \<Rightarrow> runBuiltin c args command t)"

text \<open>What \<^verbatim>\<open>handleCommand\<close> reads from an inherited property: no field is defined.\<close>

definition inheritedObject :: cmdObj where
  "inheritedObject = \<lparr>description = None, cmd_output = None, action = None\<rparr>"

text \<open>\<^verbatim>\<open>executeCommand(command, args, fullCommand)\<close> (script.js, lines 308-324;
  part_001, lines 461-477).\<close>

definition executeCommand ::
  "variant \<Rightarrow> jsString \<Rightarrow> jsString list \<Rightarrow> jsString \<Rightarrow> WebTerminal \<Rightarrow> WebTerminal" where
  "executeCommand v command args fullCommand t =
     (case js_get (commands (config t)) fullCommand of
        Own c \<Rightarrow> handleCommand v c args fullCommand t
      | Inherited \<Rightarrow> handleCommand v inheritedObject args fullCommand t
      | Undefined \<Rightarrow>
          (case js_get (commands (config t)) command of
             Own c \<Rightarrow> handleCommand v c args command t
           | Inherited \<Rightarrow> handleCommand v inheritedObject args command t
           | Undefined \<Rightarrow>
               renderLine (js_replace (commandNotFound (system (config t))) (str ''{cmd}'') command)
                 (str ''output-error'') t))"

text \<open>
  \<^verbatim>\<open>processCommand()\<close> (script.js, lines 278-303; part_001, lines 431-456).
  \<open>promptText\<close> is the text the prompt element shows when the line is submitted.
  \<^verbatim>\<open>split\<close> never returns an empty array, so the first case below is never taken.
\<close>

definition processCommand :: "variant \<Rightarrow> jsString \<Rightarrow> WebTerminal \<Rightarrow> WebTerminal" where
  "processCommand v promptText t =
     (let fullCommand = js_trim (commandInput t);
          t1 = renderLine (promptText @ str '' '' @ fullCommand) (str ''output-command'') t;
          t2 = (if fullCommand = [] then t1
                else
                  (let h = (if commandHistory t1 \<noteq> [] \<and> last (commandHistory t1) = fullCommand
                            then commandHistory t1
                            else commandHistory t1 @ [fullCommand]);
                       t' = t1\<lparr>commandHistory := h, historyIndex := length h,
                               commandCount := commandCount t1 + 1\<rparr>
                   in case js_split_ws fullCommand of
                        [] \<Rightarrow> t'
                      | command # args \<Rightarrow> executeCommand v command args fullCommand t'))
      in hideSuggestions (t2\<lparr>commandInput := []\<rparr>))"

section \<open>Suggestions and history\<close>



text \<open>\<^verbatim>\<open>navigateHistory(direction)\<close> (script.js, lines 656-673; part_001, lines
  871-888).\<close>

definition navigateHistory :: "jsString \<Rightarrow> WebTerminal \<Rightarrow> WebTerminal" where
  "navigateHistory direction t =
     (if commandHistory t = [] then t
      else
        (let i = (if direction = str ''up''
                  then (if historyIndex t > 0 then historyIndex t - 1 else historyIndex t)
                  else (if historyIndex t < length (commandHistory t)
                        then historyIndex t + 1 else historyIndex t));
             command = (if i < length (commandHistory t) then commandHistory t ! i else [])
         in t\<lparr>historyIndex := i, commandInput := command\<rparr>))"

section \<open>The scenario of the specification\<close>

text \<open>
  The configuration of the specification's scenario: the directory \<^verbatim>\<open>~\<close> with the
  entries \<^verbatim>\<open>a.txt\<close> and \<^verbatim>\<open>sub/\<close>, the file \<^verbatim>\<open>a.txt\<close> with the content
  \<^verbatim>\<open>hello\<close>, the not-found template of the README, and a command table that lists
  \<^verbatim>\<open>ls\<close>. \<open>scenarioTerminal\<close> is the terminal of part_001 after it has loaded it.
\<close>

definition lsCommand :: cmdObj where
  "lsCommand =
     \<lparr>description = Some (str ''List directory contents''), cmd_output = None, action = None\<rparr>"

definition scenarioConfig :: "jsString \<Rightarrow> config" where
  "scenarioConfig usr =
     \<lparr>system = \<lparr>user = usr, host = str ''webterm'',
                 commandNotFound = (str ''bash: {cmd}: command not found'')\<rparr>,
      filesystem = [(str ''~'', [str ''a.txt'', str ''sub/''])],
      files = [(str ''a.txt'', str ''hello'')],
      motd = None,
      commands = [(str ''ls'', lsCommand)]\<rparr>"

definition scenarioTerminal :: "jsString \<Rightarrow> WebTerminal" where
  "scenarioTerminal usr =
     loadConfig MultiDistro (scenarioConfig usr) (newWebTerminal MultiDistro)"

section \<open>Notions of the specification\<close>

text \<open>A string with its first doubled separator, if it has one, collapsed to one.\<close>

fun collapseFirst :: "jsString \<Rightarrow> jsString" where
  "collapseFirst (a # b # r) =
     (if a = (of_char (CHR ''/'')) \<and> b = (of_char (CHR ''/'')) then (of_char (CHR ''/'')) # r else a # collapseFirst (b # r))"
| "collapseFirst [a] = [a]"
| "collapseFirst [] = []"


text \<open>The built-in commands of the second \<^verbatim>\<open>switch\<close> of \<^verbatim>\<open>handleCommand\<close>.\<close>

definition builtinCommands :: "jsString list" where
  "builtinCommands = [str ''help'', str ''echo'', str ''cat'', str ''ls'', str ''pwd'']"

text \<open>A string with the first occurrence of \<open>p\<close>, if there is one, replaced by \<open>r\<close> as
  it stands.\<close>

definition substituteFirst :: "jsString \<Rightarrow> jsString \<Rightarrow> jsString \<Rightarrow> jsString" where
  "substituteFirst s p r =
     (case indexOfSplit p s of None \<Rightarrow> s | Some (pre, post) \<Rightarrow> pre @ r @ post)"

text \<open>
  The home path of a configuration and the full path of a key of its
  \<^verbatim>\<open>filesystem\<close>, as \<^verbatim>\<open>setupFileSystemFromConfig\<close> computes them, and the three
  ways a node gets into the file system it builds: as the directory a key declares,
  as the empty directory materialized from an entry that ends in \<open>/\<close>, and as a file
  of \<^verbatim>\<open>files\<close>.
\<close>

definition homePath :: "config \<Rightarrow> jsString" where
  "homePath cfg = str ''/home/'' @ user (system cfg)"

definition fullPathOf :: "config \<Rightarrow> jsString \<Rightarrow> jsString" where
  "fullPathOf cfg path = js_replace path (str ''~'') (homePath cfg)"

definition isDirectory :: "fsNode \<Rightarrow> bool" where
  "isDirectory n = (case n of Directory entries p \<Rightarrow> True | File text p \<Rightarrow> False)"

definition declaredNode :: "config \<Rightarrow> jsString \<Rightarrow> fsNode \<Rightarrow> bool" where
  "declaredNode cfg p n =
     (\<exists>e \<in> set (filesystem cfg).
        p = fullPathOf cfg (fst e)
        \<and> n = Directory (map (\<lambda>item. js_replace item (str ''/'') [])
                           (filter (\<lambda>item. \<not> js_endsWith item (str ''/'')) (snd e)))
                        (getParentPath p))"

definition materializedNode :: "config \<Rightarrow> jsString \<Rightarrow> fsNode \<Rightarrow> bool" where
  "materializedNode cfg p n =
     (\<exists>e \<in> set (filesystem cfg). \<exists>d \<in> set (snd e).
        js_endsWith d (str ''/'')
        \<and> p = fullPathOf cfg (fst e) @ str ''/'' @ js_replace d (str ''/'') []
        \<and> n = Directory [] (fullPathOf cfg (fst e)))"

definition fileNode :: "config \<Rightarrow> jsString \<Rightarrow> fsNode \<Rightarrow> bool" where
  "fileNode cfg p n =
     (\<exists>f \<in> set (files cfg).
        p = homePath cfg @ str ''/'' @ fst f \<and> n = File (snd f) (homePath cfg))"

definition parentPresent :: "config \<Rightarrow> (jsString \<times> fsNode) list \<Rightarrow> jsString \<Rightarrow> bool" where
  "parentPresent cfg fs q =
     (\<exists>x. map_of fs q = Some x \<and> (isDirectory x \<or> fileNode cfg q x))"

definition nodesAccounted :: "config \<Rightarrow> (jsString \<times> fsNode) list \<Rightarrow> bool" where
  "nodesAccounted cfg fs =
     (\<forall>p n. map_of fs p = Some n \<longrightarrow>
        declaredNode cfg p n \<or> fileNode cfg p n
        \<or> (materializedNode cfg p n \<and> parentPresent cfg fs (parent n)))"

definition homeDeclared :: "config \<Rightarrow> bool" where
  "homeDeclared cfg = (\<exists>e \<in> set (filesystem cfg). fullPathOf cfg (fst e) = homePath cfg)"

definition directoryAt :: "(jsString \<times> fsNode) list \<Rightarrow> jsString \<Rightarrow> bool" where
  "directoryAt fs q = (\<exists>x. map_of fs q = Some x \<and> isDirectory x)"

section \<open>Literals\<close>

lemma str_simps: "str [] = []" "str (c # cs) = of_char c # str cs"
  by (simp_all add: str_def)

section \<open>Rendering leaves the rest of the state alone\<close>


section \<open>History navigation\<close>

text \<open>
  Claim C7, as the code has it. With the history \<open>ls\<close>, \<open>pwd\<close> and the cursor at the
  length of the history, history-up twice puts \<open>ls\<close> into the input, and history-down
  after that moves the cursor forward again and leaves \<open>pwd\<close> there.
\<close>

theorem history_up_up_down:
  "commandInput (navigateHistory (str ''down'') (navigateHistory (str ''up'') (navigateHistory (str ''up'')
      (t\<lparr>commandHistory := [str ''ls'', str ''pwd''], historyIndex := 2\<rparr>)))) = str ''pwd''
   \<and> commandInput (navigateHistory (str ''up'') (navigateHistory (str ''up'')
      (t\<lparr>commandHistory := [str ''ls'', str ''pwd''], historyIndex := 2\<rparr>))) = str ''ls''"
  by (simp add: navigateHistory_def Let_def str_simps)

text \<open>
  Claim C7 as the specification states it fails: after up, up, down the input is not
  \<open>ls\<close>.
\<close>

theorem history_up_up_down_not_ls:
  "commandInput (navigateHistory (str ''down'') (navigateHistory (str ''up'') (navigateHistory (str ''up'')
      ((newWebTerminal MultiDistro)\<lparr>commandHistory := [str ''ls'', str ''pwd''], historyIndex := 2\<rparr>))))
   \<noteq> str ''ls''"
  by (simp add: navigateHistory_def Let_def str_simps)

section \<open>The mock file operations\<close>


section \<open>Path resolution\<close>

lemma indexOfSplit_slashes:
  "indexOfSplit (str ''//'') s = None \<Longrightarrow> collapseFirst s = s"
  "indexOfSplit (str ''//'') s = Some (pre, post) \<Longrightarrow> collapseFirst s = pre @ str ''/'' @ post"
   apply (induction s arbitrary: pre rule: collapseFirst.induct)
  apply (auto simp: js_startsWith_def str_simps split: if_splits option.splits)
  done

lemma replace_slashes: "js_replace s (str ''//'') (str ''/'') = collapseFirst s"
proof -
  have gs: "getSubstitution m a b (str ''/'') = str ''/''" for m a b
    by (simp add: str_simps)
  show ?thesis
    by (cases "indexOfSplit (str ''//'') s") (auto simp: js_replace_def indexOfSplit_slashes gs)
qed

lemma resolve_dotdot:
  "(case js_get fs cwd of Undefined \<Rightarrow> cwd | Inherited \<Rightarrow> cwd
      | Own currentObj \<Rightarrow> if parent currentObj = [] then cwd else parent currentObj)
   = (case map_of fs cwd of None \<Rightarrow> cwd
      | Some node \<Rightarrow> if parent node = [] then cwd else parent node)"
  by (simp add: js_get_def split: option.splits)

text \<open>
  Claim C5, as the code has it. A missing or empty input and \<open>.\<close> resolve to the
  working directory; an input that begins with \<open>/\<close> is returned as it is; \<open>..\<close>
  resolves to the parent field of the node at the working directory when that field
  is not empty, and to the working directory itself when there is no node there or
  the field is empty; every other input resolves to the working directory, a
  separator and the input, with the first doubled separator collapsed and any later
  one kept.
\<close>

theorem resolvePath_cases:
  "resolvePath None t = currentPath t
   \<and> resolvePath (Some p) t =
       (if p = [] \<or> p = str ''.'' then currentPath t
        else if js_startsWith p (str ''/'') then p
        else if p = str ''..'' then
          (case map_of (fileSystem t) (currentPath t) of
             None \<Rightarrow> currentPath t
           | Some node \<Rightarrow> if parent node = [] then currentPath t else parent node)
        else collapseFirst (currentPath t @ str ''/'' @ p))"
proof -
  have dot: "\<not> js_startsWith (str ''.'') (str ''/'')" "str ''.'' \<noteq> str ''..''"
    by (simp_all add: js_startsWith_def str_simps)
  show ?thesis
    unfolding resolvePath_def
    using dot by (auto simp: replace_slashes resolve_dotdot)
qed

text \<open>
  Claim C5 as the specification states it fails: in \<open>/home/user\<close> the input
  \<open>a//b//c\<close> resolves to a path that still has a doubled separator, not to the path
  with every doubled separator collapsed.
\<close>

theorem resolvePath_keeps_second_double_separator:
  "resolvePath (Some (str ''a//b//c'')) (newWebTerminal MultiDistro) = str ''/home/user/a/b//c''
   \<and> resolvePath (Some (str ''a//b//c'')) (newWebTerminal MultiDistro) \<noteq> str ''/home/user/a/b/c''"
  by code_simp

section \<open>Suggestions\<close>






section \<open>Listing the scenario's home directory\<close>

text \<open>
  Claim C4, evaluated on the code. In the scenario's configuration with the user
  \<open>user\<close>, \<open>ls\<close> in the home directory prints one line that holds \<open>a.txt\<close> alone:
  the file system has a node for \<open>sub\<close>, but the entries that end in \<open>/\<close> were
  filtered out of the child list of the home directory.
\<close>

theorem ls_omits_subdirectory:
  "terminalOutput (executeCommand MultiDistro (str ''ls'') [] (str ''ls'') (scenarioTerminal (str ''user'')))
     = [(PAGE_FACING_UP @ str '' a.txt'', [])]
   \<and> fileSystem (scenarioTerminal (str ''user''))
     = [(str ''/home/user'', Directory [str ''a.txt''] (str ''/home'')),
        (str ''/home/user/sub'', Directory [] (str ''/home/user'')),
        (str ''/home/user/a.txt'', File (str ''hello'') (str ''/home/user''))]
   \<and> currentPath (scenarioTerminal (str ''user'')) = str ''/home/user''"
  by code_simp

section \<open>Changing the directory\<close>

text \<open>
  Claim C8, evaluated on the code. With the configured user \<open>archuser\<close> the session
  starts in \<open>/home/archuser\<close>; \<open>cd\<close> with no argument and \<open>cd ~\<close> both set the
  working directory to the literal \<open>/home/user\<close>, which is not the configured home
  directory and is not a node of the file system.
\<close>

theorem cd_home_ignores_configured_user:
  "currentPath (scenarioTerminal (str ''archuser'')) = str ''/home/archuser''
   \<and> currentPath (changeDirectory None (scenarioTerminal (str ''archuser''))) = str ''/home/user''
   \<and> currentPath (changeDirectory (Some (str ''~'')) (scenarioTerminal (str ''archuser''))) = str ''/home/user''
   \<and> js_get (fileSystem (scenarioTerminal (str ''archuser''))) (str ''/home/user'') = Undefined"
  by code_simp

text \<open>
  With any other path \<open>changeDirectory\<close> resolves it and looks at the node there: the
  working directory becomes the resolved path when the node is a directory, and
  otherwise stays what it was while one error line is printed.
\<close>

lemma changeDirectory_other_path:
  assumes "\<not> falsy path" and "path \<noteq> Some (str ''~'')"
  shows "changeDirectory path t =
           (case map_of (fileSystem t) (resolvePath path t) of
              Some (Directory entries p) \<Rightarrow> t\<lparr>currentPath := resolvePath path t\<rparr>
            | Some (File text p) \<Rightarrow>
                t\<lparr>terminalOutput := terminalOutput t @
                     [(str ''cd: '' @ js_String path @ str '': Not a directory'', str ''output-error'')]\<rparr>
            | None \<Rightarrow>
                t\<lparr>terminalOutput := terminalOutput t @
                     [(str ''cd: '' @ js_String path @
                         (if resolvePath path t \<in> set objectPrototype
                          then str '': Not a directory'' else str '': No such file or directory''),
                       (str ''output-error''))]\<rparr>)"
  using assms
  by (auto simp: changeDirectory_def Let_def js_get_def renderLine_def
           split: option.splits fsNode.splits)

lemma changeDirectory_in_scenario:
  "currentPath (changeDirectory (Some (str ''sub'')) (scenarioTerminal (str ''user''))) = str ''/home/user/sub''
   \<and> currentPath (changeDirectory (Some (str ''a.txt'')) (scenarioTerminal (str ''user''))) = str ''/home/user''
   \<and> terminalOutput (changeDirectory (Some (str ''a.txt'')) (scenarioTerminal (str ''user'')))
       = [(str ''cd: a.txt: Not a directory'', str ''output-error'')]
   \<and> terminalOutput (changeDirectory (Some (str ''nowhere'')) (scenarioTerminal (str ''user'')))
       = [(str ''cd: nowhere: No such file or directory'', str ''output-error'')]"
proof -
  let ?t = "scenarioTerminal (str ''user'')"
  have h1: "\<not> falsy (Some (str ''sub''))" by (simp add: falsy_def str_simps)
  have h2: "Some (str ''sub'') \<noteq> Some (str ''~'')" by (simp add: str_simps)
  have e1: "(case map_of (fileSystem ?t) (resolvePath (Some (str ''sub'')) ?t) of
              Some (Directory entries p) \<Rightarrow> ?t\<lparr>currentPath := resolvePath (Some (str ''sub'')) ?t\<rparr>
            | Some (File text p) \<Rightarrow>
                ?t\<lparr>terminalOutput := terminalOutput ?t @
                     [(str ''cd: '' @ js_String (Some (str ''sub'')) @ str '': Not a directory'', str ''output-error'')]\<rparr>
            | None \<Rightarrow>
                ?t\<lparr>terminalOutput := terminalOutput ?t @
                     [(str ''cd: '' @ js_String (Some (str ''sub'')) @
                         (if resolvePath (Some (str ''sub'')) ?t \<in> set objectPrototype
                          then str '': Not a directory'' else str '': No such file or directory''),
                       (str ''output-error''))]\<rparr>) = ?t\<lparr>currentPath := (str ''/home/user/sub'')\<rparr>"
    by code_simp
  have c1: "currentPath (changeDirectory (Some (str ''sub'')) ?t) = str ''/home/user/sub''"
    using changeDirectory_other_path [OF h1 h2, of ?t] e1 by simp
  have rest: "currentPath (changeDirectory (Some (str ''a.txt'')) ?t) = str ''/home/user''
   \<and> terminalOutput (changeDirectory (Some (str ''a.txt'')) ?t)
       = [(str ''cd: a.txt: Not a directory'', str ''output-error'')]
   \<and> terminalOutput (changeDirectory (Some (str ''nowhere'')) ?t)
       = [(str ''cd: nowhere: No such file or directory'', str ''output-error'')]"
    by code_simp
  from c1 rest show ?thesis by simp
qed

section \<open>Dispatch\<close>

text \<open>
  Claim C2, evaluated on the code. The table of the scenario has no entry for
  \<^verbatim>\<open>$&\<close> and none for \<^verbatim>\<open>constructor\<close>. Submitting \<^verbatim>\<open>$&\<close> prints the
  template with \<^verbatim>\<open>{cmd}\<close> still in it, because \<^verbatim>\<open>replace\<close> reads \<^verbatim>\<open>$&\<close> in
  its replacement as the matched text; submitting \<^verbatim>\<open>constructor\<close> prints nothing
  after the echoed line, because the lookup finds the property every object inherits.
\<close>

theorem not_found_message_on_special_tokens:
  "terminalOutput (processCommand MultiDistro (str ''$'')
       ((scenarioTerminal (str ''user''))\<lparr>commandInput := (str ''$&'')\<rparr>))
     = [(str ''$ $&'', str ''output-command''), (str ''bash: {cmd}: command not found'', str ''output-error'')]
   \<and> terminalOutput (processCommand MultiDistro (str ''$'')
       ((scenarioTerminal (str ''user''))\<lparr>commandInput := (str ''constructor'')\<rparr>))
     = [(str ''$ constructor'', str ''output-command'')]
   \<and> map_of (commands (config (scenarioTerminal (str ''user'')))) (str ''constructor'') = None
   \<and> map_of (commands (config (scenarioTerminal (str ''user'')))) (str ''$&'') = None"
  by code_simp

section \<open>Built-in commands need a table entry\<close>

lemma getSubstitution_plain:
  "(of_char (CHR ''$'')) \<notin> set r \<Longrightarrow> getSubstitution m pre post r = r"
  by (induction m pre post r rule: getSubstitution.induct) auto

lemma replace_plain:
  "(of_char (CHR ''$'')) \<notin> set r \<Longrightarrow> js_replace s p r = substituteFirst s p r"
  by (simp add: js_replace_def substituteFirst_def getSubstitution_plain split: option.splits)

lemma builtin_plain: "command \<in> set builtinCommands \<Longrightarrow> (of_char (CHR ''$'')) \<notin> set command"
  by (auto simp: builtinCommands_def str_simps)

lemma split_ws_no_space:
  assumes "\<forall>c \<in> set s. \<not> isWhiteSpace c"
  shows "js_split_ws s = [s]"
proof -
  have "takeWhile (\<lambda>c. \<not> isWhiteSpace c) s = s" using assms by (simp add: takeWhile_eq_all_conv)
  moreover have "dropWhile (\<lambda>c. \<not> isWhiteSpace c) s = []" using assms by (simp add: dropWhile_eq_Nil_conv)
  ultimately show ?thesis by (subst js_split_ws.simps) (simp add: Let_def)
qed

lemma prototype_no_space: "\<forall>k \<in> set objectPrototype. \<forall>c \<in> set k. \<not> isWhiteSpace c"
  by code_simp

lemma prototype_not_builtin: "k \<in> set objectPrototype \<Longrightarrow> k \<notin> set builtinCommands"
  by (auto simp: objectPrototype_def builtinCommands_def str_simps)

lemma first_token_builtin_not_inherited:
  assumes "js_split_ws full = command # args" and "command \<in> set builtinCommands"
  shows "full \<notin> set objectPrototype" and "command \<notin> set objectPrototype"
proof -
  show "command \<notin> set objectPrototype" using assms(2) prototype_not_builtin by blast
  show "full \<notin> set objectPrototype"
  proof
    assume p: "full \<in> set objectPrototype"
    then have "js_split_ws full = [full]" using prototype_no_space split_ws_no_space by blast
    then have "command = full" using assms(1) by simp
    then show False using p assms(2) prototype_not_builtin by blast
  qed
qed

lemma hideSuggestions_output: "terminalOutput (hideSuggestions t) = terminalOutput t"
  by (simp add: hideSuggestions_def)

text \<open>
  Claim C10: the built-in commands \<open>help\<close>, \<open>echo\<close>, \<open>cat\<close>, \<open>ls\<close> and \<open>pwd\<close>
  run only through a table entry. When the first token of a submitted line is one of
  them and the table has no entry under that token and none under the whole trimmed
  line, the line is echoed and the only other output is the not-found template with
  its first \<^verbatim>\<open>{cmd}\<close> replaced by the token, styled as an error.
\<close>

theorem builtin_needs_table_entry:
  assumes "command \<in> set builtinCommands"
    and "js_split_ws (js_trim (commandInput t)) = command # args"
    and "map_of (commands (config t)) command = None"
    and "map_of (commands (config t)) (js_trim (commandInput t)) = None"
  shows "terminalOutput (processCommand v promptText t) =
           terminalOutput t @
             [(promptText @ str '' '' @ js_trim (commandInput t), str ''output-command''),
              (substituteFirst (commandNotFound (system (config t))) (str ''{cmd}'') command,
               (str ''output-error''))]"
proof -
  let ?full = "js_trim (commandInput t)"
  have ne: "?full \<noteq> []"
  proof
    assume "?full = []"
    then have "js_split_ws ?full = [[]]" by (simp add: js_split_ws.simps[of "[]"])
    then have "command = []" using assms(2) by simp
    then show False using assms(1) by (simp add: builtinCommands_def str_simps)
  qed
  have u1: "js_get (commands (config t)) ?full = Undefined"
    using first_token_builtin_not_inherited(1)[OF assms(2) assms(1)] assms(4)
    by (simp add: js_get_def)
  have u2: "js_get (commands (config t)) command = Undefined"
    using first_token_builtin_not_inherited(2)[OF assms(2) assms(1)] assms(3)
    by (simp add: js_get_def)
  have msg: "js_replace (commandNotFound (system (config t))) (str ''{cmd}'') command
               = substituteFirst (commandNotFound (system (config t))) (str ''{cmd}'') command"
    using builtin_plain[OF assms(1)] by (rule replace_plain)
  show ?thesis
    using ne u1 u2 assms(2) msg
    by (simp add: processCommand_def Let_def executeCommand_def hideSuggestions_output
          renderLine_def)
qed

theorem builtin_needs_table_entry_witness:
  "terminalOutput (processCommand MultiDistro (str ''$'')
       ((scenarioTerminal (str ''user''))\<lparr>commandInput := (str ''echo hi'')\<rparr>))
     = [(str ''$ echo hi'', str ''output-command''),
        (str ''bash: echo: command not found'', str ''output-error'')]"
proof -
  let ?t = "(scenarioTerminal (str ''user''))\<lparr>commandInput := (str ''echo hi'')\<rparr>"
  have h1: "(str ''echo'') \<in> set builtinCommands" by (simp add: builtinCommands_def)
  have h2: "js_split_ws (js_trim (commandInput ?t)) = (str ''echo'') # [str ''hi'']" by code_simp
  have h3: "map_of (commands (config ?t)) (str ''echo'') = None" by code_simp
  have h4: "map_of (commands (config ?t)) (js_trim (commandInput ?t)) = None" by code_simp
  have rhs: "terminalOutput ?t @
             [(str ''$'' @ str '' '' @ js_trim (commandInput ?t), str ''output-command''),
              (substituteFirst (commandNotFound (system (config ?t))) (str ''{cmd}'') (str ''echo''),
               (str ''output-error''))]
           = [(str ''$ echo hi'', str ''output-command''),
              (str ''bash: echo: command not found'', str ''output-error'')]"
    by code_simp
  from builtin_needs_table_entry [OF h1 h2 h3 h4, of MultiDistro "(str ''$'')"] rhs
  show ?thesis by (simp only:)
qed

text \<open>
  The same holds for every first token that has no dollar sign in it, when neither
  the token nor the trimmed line names a property of the table, own or inherited: the
  template of the README and the line \<open>foo bar\<close> give \<open>bash: foo: command not found\<close>.
\<close>

lemma unknown_plain_token_not_found:
  assumes "js_split_ws (js_trim (commandInput t)) = command # args"
    and "command \<noteq> []"
    and "(of_char (CHR ''$'')) \<notin> set command"
    and "js_get (commands (config t)) (js_trim (commandInput t)) = Undefined"
    and "js_get (commands (config t)) command = Undefined"
  shows "terminalOutput (processCommand v promptText t) =
           terminalOutput t @
             [(promptText @ str '' '' @ js_trim (commandInput t), str ''output-command''),
              (substituteFirst (commandNotFound (system (config t))) (str ''{cmd}'') command,
               (str ''output-error''))]"
proof -
  let ?full = "js_trim (commandInput t)"
  have ne: "?full \<noteq> []"
  proof
    assume "?full = []"
    then have "js_split_ws ?full = [[]]" by (simp add: js_split_ws.simps[of "[]"])
    then show False using assms(1,2) by simp
  qed
  have msg: "js_replace (commandNotFound (system (config t))) (str ''{cmd}'') command
               = substituteFirst (commandNotFound (system (config t))) (str ''{cmd}'') command"
    using assms(3) by (rule replace_plain)
  show ?thesis
    using ne assms(1,4,5) msg
    by (simp add: processCommand_def Let_def executeCommand_def hideSuggestions_output
          renderLine_def)
qed

lemma unknown_foo_not_found:
  "terminalOutput (processCommand MultiDistro (str ''$'')
       ((scenarioTerminal (str ''user''))\<lparr>commandInput := (str ''  foo  bar '')\<rparr>))
     = [(str ''$ foo  bar'', str ''output-command''),
        (str ''bash: foo: command not found'', str ''output-error'')]"
proof -
  let ?t = "(scenarioTerminal (str ''user''))\<lparr>commandInput := (str ''  foo  bar '')\<rparr>"
  have h1: "js_split_ws (js_trim (commandInput ?t)) = (str ''foo'') # [str ''bar'']" by code_simp
  have h2: "(str ''foo'') \<noteq> []" by (simp add: str_simps)
  have h3: "(of_char (CHR ''$'')) \<notin> set (str ''foo'')" by (simp add: str_simps)
  have h4: "js_get (commands (config ?t)) (js_trim (commandInput ?t)) = Undefined" by code_simp
  have h5: "js_get (commands (config ?t)) (str ''foo'') = Undefined" by code_simp
  have rhs: "terminalOutput ?t @
             [(str ''$'' @ str '' '' @ js_trim (commandInput ?t), str ''output-command''),
              (substituteFirst (commandNotFound (system (config ?t))) (str ''{cmd}'') (str ''foo''),
               (str ''output-error''))]
           = [(str ''$ foo  bar'', str ''output-command''),
              (str ''bash: foo: command not found'', str ''output-error'')]"
    by code_simp
  from unknown_plain_token_not_found [OF h1 h2 h3 h4 h5, of MultiDistro "(str ''$'')"] rhs
  show ?thesis by (simp only:)
qed

section \<open>Merging the command table\<close>

lemma map_of_js_set: "map_of (js_set obj k v) = (map_of obj)(k \<mapsto> v)"
  by (simp add: js_set_def update_conv')

lemma map_of_fold_set:
  "map_of (fold (\<lambda>entry c. js_set c (fst entry) (snd entry)) es c) = map_of c ++ map_of (rev es)"
  by (induction es arbitrary: c) (simp_all add: map_of_js_set)

lemma map_of_mergeCore:
  assumes "fst entry \<notin> set objectPrototype"
  shows "map_of (mergeCore entry c) k =
           (case map_of c k of Some d \<Rightarrow> Some d
            | None \<Rightarrow> if k = fst entry then Some (snd entry) else None)"
  using assms by (auto simp: mergeCore_def js_get_def map_of_js_set split: option.splits)

lemma map_of_fold_mergeCore:
  assumes "fst ` set es \<inter> set objectPrototype = {}"
  shows "map_of (fold mergeCore es c) k =
           (case map_of c k of Some d \<Rightarrow> Some d | None \<Rightarrow> map_of es k)"
  using assms
proof (induction es arbitrary: c)
  case Nil
  then show ?case by (simp split: option.splits)
next
  case (Cons e es)
  then have e: "fst e \<notin> set objectPrototype" and es: "fst ` set es \<inter> set objectPrototype = {}"
    by auto
  show ?case
    using Cons.IH[OF es, of "mergeCore e c"] map_of_mergeCore[OF e, of c k]
    by (cases e) (auto split: option.splits)
qed

lemma map_of_stampOutput:
  "map_of (stampOutput k v c) k' =
     (if k' = k then map_option (\<lambda>d. d\<lparr>cmd_output := Some (Text v)\<rparr>) (map_of c k)
      else map_of c k')"
  by (auto simp: stampOutput_def js_get_def map_of_js_set split: option.splits)

lemma core_not_inherited: "fst ` set coreCommands \<inter> set objectPrototype = {}"
  by code_simp

lemma core_keys:
  "map_of coreCommands (str ''switch-distro'') = None" "map_of coreCommands (str ''list-distros'') = None"
  "map_of coreCommands (str ''whoami'') = None" "map_of coreCommands (str ''pwd'') = None"
  by code_simp+

lemma meta_keys:
  "str ''switch-distro'' \<noteq> str ''list-distros''" "str ''switch-distro'' \<noteq> str ''whoami''"
  "str ''switch-distro'' \<noteq> str ''pwd''" "str ''list-distros'' \<noteq> str ''whoami''"
  "str ''list-distros'' \<noteq> str ''pwd''" "str ''pwd'' \<noteq> str ''whoami''"
  by (simp_all add: str_simps)

lemma map_of_rev_distinct:
  assumes "distinct (map fst xs)"
  shows "map_of (rev xs) = map_of xs"
  using assms
proof (induction xs)
  case Nil
  then show ?case by simp
next
  case (Cons x xs)
  then have fresh: "map_of xs (fst x) = None" and IH: "map_of (rev xs) = map_of xs"
    by (auto simp: map_of_eq_None_iff)
  show ?case
  proof (rule ext)
    fix k
    show "map_of (rev (x # xs)) k = map_of (x # xs) k"
      using fresh IH by (cases x) (auto simp: map_add_def split: option.splits)
  qed
qed

lemma additional_distinct: "distinct (map fst (additionalCommands usr))"
  unfolding additionalCommands_def list.map fst_conv by code_simp

lemma additional_rev: "map_of (rev (additionalCommands usr)) = map_of (additionalCommands usr)"
  by (rule map_of_rev_distinct) (rule additional_distinct)

text \<open>
  Claim C1, as the code has it. In part_001 the table built from a distribution's
  table \<open>D\<close> maps \<open>switch-distro\<close> and \<open>list-distros\<close> to the two synthesized
  entries whatever \<open>D\<close> holds; every other key of \<open>D\<close> keeps the entry of \<open>D\<close>, with
  the output of \<open>whoami\<close> set to the user and the output of \<open>pwd\<close> set to the working
  directory; a key that \<open>D\<close> lacks gets the core default, if there is one. In
  script.js the merge goes the other way: every key of the additional commands maps
  to the additional command, and only the other keys keep the entry of \<open>D\<close>.
\<close>

theorem enhanceCommands_merge:
  "map_of (enhanceCommands MultiDistro usr cwd D) k =
     (if k = str ''switch-distro'' then Some switchDistroCommand
      else if k = str ''list-distros'' then Some listDistrosCommand
      else (case map_of D k of
              Some d \<Rightarrow> Some (if k = str ''whoami'' then d\<lparr>cmd_output := Some (Text usr)\<rparr>
                              else if k = str ''pwd'' then d\<lparr>cmd_output := Some (Text cwd)\<rparr>
                              else d)
            | None \<Rightarrow> map_of coreCommands k))
   \<and> map_of (enhanceCommands SingleConfig usr cwd D) k =
     (case map_of (additionalCommands usr) k of
        Some c \<Rightarrow> Some c
      | None \<Rightarrow> map_of D k)"
proof -
  have multi: "map_of (enhanceCommands MultiDistro usr cwd D) k =
     (if k = str ''switch-distro'' then Some switchDistroCommand
      else if k = str ''list-distros'' then Some listDistrosCommand
      else (case map_of D k of
              Some d \<Rightarrow> Some (if k = str ''whoami'' then d\<lparr>cmd_output := Some (Text usr)\<rparr>
                              else if k = str ''pwd'' then d\<lparr>cmd_output := Some (Text cwd)\<rparr>
                              else d)
            | None \<Rightarrow> map_of coreCommands k))"
    by (simp add: enhanceCommands_def Let_def map_of_stampOutput
          map_of_fold_mergeCore[OF core_not_inherited] map_of_js_set core_keys
          meta_keys meta_keys[symmetric]
        split: option.splits)
  have single: "map_of (enhanceCommands SingleConfig usr cwd D) k =
     (case map_of (additionalCommands usr) k of Some c \<Rightarrow> Some c | None \<Rightarrow> map_of D k)"
    by (simp add: enhanceCommands_def map_of_fold_set additional_rev map_add_def)
  from multi single show ?thesis by (rule conjI)
qed

text \<open>
  Claim C1 as the specification states it fails: script.js replaces a distribution's
  own \<open>cd\<close>, and part_001 replaces a distribution's own \<open>switch-distro\<close>.
\<close>

theorem core_overwrites_distro_entry:
  "map_of (enhanceCommands SingleConfig (str ''user'') (str ''/home/user'') [(str ''cd'', lsCommand)]) (str ''cd'')
     \<noteq> map_of [(str ''cd'', lsCommand)] (str ''cd'')
   \<and> map_of (enhanceCommands MultiDistro (str ''user'') (str ''/home/user'') [(str ''switch-distro'', lsCommand)])
        (str ''switch-distro'')
     \<noteq> map_of [(str ''switch-distro'', lsCommand)] (str ''switch-distro'')"
  by code_simp

section \<open>The nodes of a built file system\<close>

lemma parentPresent_set:
  assumes "parentPresent cfg fs q" and "isDirectory v \<or> fileNode cfg k v"
  shows "parentPresent cfg (js_set fs k v) q"
  using assms by (auto simp: parentPresent_def map_of_js_set)

lemma nodesAccounted_set:
  assumes "nodesAccounted cfg fs"
    and "isDirectory v \<or> fileNode cfg k v"
    and "declaredNode cfg k v \<or> fileNode cfg k v
         \<or> (materializedNode cfg k v \<and> parentPresent cfg (js_set fs k v) (parent v))"
  shows "nodesAccounted cfg (js_set fs k v)"
  unfolding nodesAccounted_def
proof (intro allI impI)
  fix p n
  assume m: "map_of (js_set fs k v) p = Some n"
  show "declaredNode cfg p n \<or> fileNode cfg p n
        \<or> (materializedNode cfg p n \<and> parentPresent cfg (js_set fs k v) (parent n))"
  proof (cases "p = k")
    case True
    then have "n = v" using m by (simp add: map_of_js_set)
    then show ?thesis using True assms(3) by simp
  next
    case False
    then have "map_of fs p = Some n" using m by (simp add: map_of_js_set)
    then have "declaredNode cfg p n \<or> fileNode cfg p n
        \<or> (materializedNode cfg p n \<and> parentPresent cfg fs (parent n))"
      using assms(1) by (simp add: nodesAccounted_def)
    then show ?thesis using parentPresent_set[OF _ assms(2)] by blast
  qed
qed

lemma addSubdirectory_accounted:
  assumes "nodesAccounted cfg fs" and "parentPresent cfg fs (fullPathOf cfg (fst e))"
    and "e \<in> set (filesystem cfg)" and "d \<in> set (snd e)" and "js_endsWith d (str ''/'')"
  shows "nodesAccounted cfg (addSubdirectory (fullPathOf cfg (fst e)) d fs)
         \<and> parentPresent cfg (addSubdirectory (fullPathOf cfg (fst e)) d fs) (fullPathOf cfg (fst e))"
proof -
  let ?full = "fullPathOf cfg (fst e)"
  let ?k = "?full @ str ''/'' @ js_replace d (str ''/'') []"
  let ?v = "Directory [] ?full"
  have eq: "addSubdirectory ?full d fs = js_set fs ?k ?v"
    by (simp add: addSubdirectory_def Let_def)
  have dir: "isDirectory ?v" by (simp add: isDirectory_def)
  have pp: "parentPresent cfg (js_set fs ?k ?v) ?full"
    using parentPresent_set[OF assms(2)] dir by blast
  have mat: "materializedNode cfg ?k ?v"
    using assms(3,4,5) by (auto simp: materializedNode_def)
  have "nodesAccounted cfg (js_set fs ?k ?v)"
    using nodesAccounted_set[OF assms(1), of ?v ?k] dir mat pp by simp
  then show ?thesis using pp eq by simp
qed

lemma fold_addSubdirectory_accounted:
  assumes "e \<in> set (filesystem cfg)" and "set ds \<subseteq> {d \<in> set (snd e). js_endsWith d (str ''/'')}"
    and "nodesAccounted cfg fs" and "parentPresent cfg fs (fullPathOf cfg (fst e))"
  shows "nodesAccounted cfg (fold (addSubdirectory (fullPathOf cfg (fst e))) ds fs)"
  using assms(2,3,4)
proof (induction ds arbitrary: fs)
  case Nil
  then show ?case by simp
next
  case (Cons d ds)
  then have d: "d \<in> set (snd e)" "js_endsWith d (str ''/'')" and ds: "set ds \<subseteq> {d \<in> set (snd e). js_endsWith d (str ''/'')}"
    by auto
  from addSubdirectory_accounted[OF Cons.prems(2) Cons.prems(3) assms(1) d]
  show ?case using Cons.IH[OF ds] by simp
qed

lemma addDirectory_accounted:
  assumes "nodesAccounted cfg fs" and "e \<in> set (filesystem cfg)"
  shows "nodesAccounted cfg (addDirectory (user (system cfg)) e fs)"
proof -
  let ?full = "fullPathOf cfg (fst e)"
  let ?v = "Directory (map (\<lambda>item. js_replace item (str ''/'') [])
                         (filter (\<lambda>item. \<not> js_endsWith item (str ''/'')) (snd e)))
                      (getParentPath ?full)"
  let ?fs1 = "js_set fs ?full ?v"
  have eq: "addDirectory (user (system cfg)) e fs =
              fold (addSubdirectory ?full) (filter (\<lambda>item. js_endsWith item (str ''/'')) (snd e)) ?fs1"
    by (simp add: addDirectory_def Let_def fullPathOf_def homePath_def)
  have dir: "isDirectory ?v" by (simp add: isDirectory_def)
  have decl: "declaredNode cfg ?full ?v" using assms(2) by (auto simp: declaredNode_def)
  have acc: "nodesAccounted cfg ?fs1"
    using nodesAccounted_set[OF assms(1), of ?v ?full] dir decl by simp
  have pp: "parentPresent cfg ?fs1 ?full"
    using dir by (simp add: parentPresent_def map_of_js_set)
  show ?thesis
    unfolding eq
    by (rule fold_addSubdirectory_accounted[OF assms(2) _ acc pp]) auto
qed

lemma addFile_accounted:
  assumes "nodesAccounted cfg fs" and "f \<in> set (files cfg)"
  shows "nodesAccounted cfg (addFile (user (system cfg)) f fs)"
proof -
  let ?k = "homePath cfg @ str ''/'' @ fst f"
  let ?v = "File (snd f) (homePath cfg)"
  have eq: "addFile (user (system cfg)) f fs = js_set fs ?k ?v"
    by (simp add: addFile_def Let_def homePath_def)
  have fn: "fileNode cfg ?k ?v" using assms(2) by (auto simp: fileNode_def)
  show ?thesis unfolding eq using nodesAccounted_set[OF assms(1), of ?v ?k] fn by simp
qed

lemma fold_accounted:
  assumes "\<And>x s. x \<in> set xs \<Longrightarrow> nodesAccounted cfg s \<Longrightarrow> nodesAccounted cfg (f x s)"
    and "nodesAccounted cfg s"
  shows "nodesAccounted cfg (fold f xs s)"
  using assms by (induction xs arbitrary: s) simp_all

lemma buildFileSystem_accounted: "nodesAccounted cfg (buildFileSystem cfg)"
proof -
  have "nodesAccounted cfg []" by (simp add: nodesAccounted_def)
  then have "nodesAccounted cfg (fold (addDirectory (user (system cfg))) (filesystem cfg) [])"
    by (rule fold_accounted[rotated]) (rule addDirectory_accounted)
  then have "nodesAccounted cfg
       (fold (addFile (user (system cfg))) (files cfg)
          (fold (addDirectory (user (system cfg))) (filesystem cfg) []))"
    by (rule fold_accounted[rotated]) (rule addFile_accounted)
  then show ?thesis by (simp add: buildFileSystem_def Let_def)
qed

lemma directoryAt_set_directory:
  "directoryAt fs q \<or> k = q \<Longrightarrow> directoryAt (js_set fs k (Directory entries p)) q"
  by (auto simp: directoryAt_def map_of_js_set isDirectory_def)

lemma directoryAt_fold_addSubdirectory:
  "directoryAt fs q \<Longrightarrow> directoryAt (fold (addSubdirectory full) ds fs) q"
  by (induction ds arbitrary: fs)
     (simp_all add: addSubdirectory_def Let_def directoryAt_set_directory)

lemma directoryAt_addDirectory:
  assumes "directoryAt fs q \<or> fullPathOf cfg (fst e) = q"
  shows "directoryAt (addDirectory (user (system cfg)) e fs) q"
  unfolding addDirectory_def Let_def
  using assms
  by (intro directoryAt_fold_addSubdirectory directoryAt_set_directory)
     (auto simp: fullPathOf_def homePath_def)

lemma directoryAt_fold_addDirectory:
  assumes "directoryAt fs q \<or> (\<exists>e \<in> set es. fullPathOf cfg (fst e) = q)"
  shows "directoryAt (fold (addDirectory (user (system cfg))) es fs) q"
  using assms
proof (induction es arbitrary: fs)
  case Nil
  then show ?case by simp
next
  case (Cons e es)
  show ?case
  proof (cases "directoryAt fs q \<or> fullPathOf cfg (fst e) = q")
    case True
    then have "directoryAt (addDirectory (user (system cfg)) e fs) q"
      by (rule directoryAt_addDirectory)
    then show ?thesis using Cons.IH by simp
  next
    case False
    then have "\<exists>e \<in> set es. fullPathOf cfg (fst e) = q" using Cons.prems by auto
    then show ?thesis using Cons.IH by simp
  qed
qed

lemma directoryAt_fold_addFile:
  "directoryAt fs (homePath cfg) \<Longrightarrow>
   directoryAt (fold (addFile (user (system cfg))) fl fs) (homePath cfg)"
proof (induction fl arbitrary: fs)
  case Nil
  then show ?case by simp
next
  case (Cons f fl)
  have "homePath cfg @ str ''/'' @ fst f \<noteq> homePath cfg" by (simp add: str_simps)
  then have "directoryAt (addFile (user (system cfg)) f fs) (homePath cfg)"
    using Cons.prems by (auto simp: addFile_def Let_def directoryAt_def map_of_js_set homePath_def)
  then show ?case using Cons.IH by simp
qed

lemma home_directory_built:
  assumes "homeDeclared cfg"
  shows "directoryAt (buildFileSystem cfg) (homePath cfg)"
proof -
  have "directoryAt (fold (addDirectory (user (system cfg))) (filesystem cfg) []) (homePath cfg)"
    using assms by (intro directoryAt_fold_addDirectory) (simp add: homeDeclared_def)
  then show ?thesis
    by (simp add: buildFileSystem_def Let_def directoryAt_fold_addFile)
qed

lemma parentPresent_fold_addSubdirectory:
  "parentPresent cfg fs q \<Longrightarrow> parentPresent cfg (fold (addSubdirectory full) ds fs) q"
  by (induction ds arbitrary: fs)
     (simp_all add: addSubdirectory_def Let_def parentPresent_set isDirectory_def)

lemma parentPresent_addDirectory:
  assumes "parentPresent cfg fs q \<or> fullPathOf cfg (fst e) = q"
  shows "parentPresent cfg (addDirectory (user (system cfg)) e fs) q"
proof -
  let ?full = "fullPathOf cfg (fst e)"
  let ?v = "Directory (map (\<lambda>item. js_replace item (str ''/'') [])
                         (filter (\<lambda>item. \<not> js_endsWith item (str ''/'')) (snd e)))
                      (getParentPath ?full)"
  have dir: "isDirectory ?v" by (simp add: isDirectory_def)
  have "parentPresent cfg (js_set fs ?full ?v) q"
  proof (cases "?full = q")
    case True
    then show ?thesis using dir by (auto simp: parentPresent_def map_of_js_set)
  next
    case False
    then have "parentPresent cfg fs q" using assms by simp
    then show ?thesis using dir by (simp add: parentPresent_set)
  qed
  then show ?thesis
    by (simp add: addDirectory_def Let_def fullPathOf_def homePath_def
          parentPresent_fold_addSubdirectory)
qed

lemma parentPresent_fold_addDirectory:
  assumes "parentPresent cfg fs q \<or> (\<exists>e \<in> set es. fullPathOf cfg (fst e) = q)"
  shows "parentPresent cfg (fold (addDirectory (user (system cfg))) es fs) q"
  using assms
proof (induction es arbitrary: fs)
  case Nil
  then show ?case by simp
next
  case (Cons e es)
  show ?case
  proof (cases "parentPresent cfg fs q \<or> fullPathOf cfg (fst e) = q")
    case True
    then have "parentPresent cfg (addDirectory (user (system cfg)) e fs) q"
      by (rule parentPresent_addDirectory)
    then show ?thesis using Cons.IH by simp
  next
    case False
    then have "\<exists>e \<in> set es. fullPathOf cfg (fst e) = q" using Cons.prems by auto
    then show ?thesis using Cons.IH by simp
  qed
qed

lemma parentPresent_fold_addFile:
  assumes "set fl \<subseteq> set (files cfg)" and "parentPresent cfg fs q"
  shows "parentPresent cfg (fold (addFile (user (system cfg))) fl fs) q"
  using assms
proof (induction fl arbitrary: fs)
  case Nil
  then show ?case by simp
next
  case (Cons f fl)
  then have f: "f \<in> set (files cfg)" and fl: "set fl \<subseteq> set (files cfg)" by auto
  have fn: "fileNode cfg (homePath cfg @ str ''/'' @ fst f) (File (snd f) (homePath cfg))"
    using f by (auto simp: fileNode_def)
  have "parentPresent cfg (addFile (user (system cfg)) f fs) q"
    using Cons.prems(2) fn by (simp add: addFile_def Let_def homePath_def parentPresent_set)
  then show ?case using Cons.IH[OF fl] by simp
qed

lemma declared_path_built:
  assumes "e \<in> set (filesystem cfg)"
  shows "parentPresent cfg (buildFileSystem cfg) (fullPathOf cfg (fst e))"
proof -
  have "parentPresent cfg (fold (addDirectory (user (system cfg))) (filesystem cfg) [])
          (fullPathOf cfg (fst e))"
    using assms by (intro parentPresent_fold_addDirectory) blast
  then show ?thesis
    by (simp add: buildFileSystem_def Let_def parentPresent_fold_addFile)
qed

text \<open>
  Claim C3, as the code has it. Every node of a built file system is the directory a
  key of \<^verbatim>\<open>filesystem\<close> declares, a file of \<^verbatim>\<open>files\<close>, or the empty directory
  materialized from an entry that ends in \<open>/\<close>. The parent field of a materialized
  directory is the path of the declaring directory, and the mapping has a node there:
  a directory, unless a file of \<^verbatim>\<open>files\<close> was written at that very path. The parent
  field of a file is the home path, and the mapping has a directory there whenever
  some key declares the home directory. (The parent of a declared directory is
  computed from its path and need not be in the mapping.)
\<close>

theorem built_nodes_accounted:
  assumes "map_of (buildFileSystem cfg) p = Some n"
  shows "(declaredNode cfg p n \<or> fileNode cfg p n \<or> materializedNode cfg p n)
         \<and> (fileNode cfg p n \<and> homeDeclared cfg \<longrightarrow>
               (\<exists>x. map_of (buildFileSystem cfg) (parent n) = Some x \<and> isDirectory x))
         \<and> (materializedNode cfg p n \<longrightarrow>
               (\<exists>x. map_of (buildFileSystem cfg) (parent n) = Some x
                    \<and> (isDirectory x \<or> fileNode cfg (parent n) x)))"
proof (intro conjI impI)
  show "declaredNode cfg p n \<or> fileNode cfg p n \<or> materializedNode cfg p n"
    using buildFileSystem_accounted[of cfg] assms
    unfolding nodesAccounted_def by blast
next
  assume a: "fileNode cfg p n \<and> homeDeclared cfg"
  then have "parent n = homePath cfg" by (auto simp: fileNode_def)
  then show "\<exists>x. map_of (buildFileSystem cfg) (parent n) = Some x \<and> isDirectory x"
    using home_directory_built[of cfg] a by (simp add: directoryAt_def)
next
  assume "materializedNode cfg p n"
  then obtain e where e: "e \<in> set (filesystem cfg)" and pn: "parent n = fullPathOf cfg (fst e)"
    by (auto simp: materializedNode_def)
  from declared_path_built[OF e]
  show "\<exists>x. map_of (buildFileSystem cfg) (parent n) = Some x
            \<and> (isDirectory x \<or> fileNode cfg (parent n) x)"
    by (simp add: parentPresent_def pn)
qed

theorem built_nodes_accounted_witness:
  "map_of (buildFileSystem (scenarioConfig (str ''user''))) (str ''/home/user/sub'')
     = Some (Directory [] (str ''/home/user''))
   \<and> materializedNode (scenarioConfig (str ''user'')) (str ''/home/user/sub'')
         (Directory [] (str ''/home/user''))
   \<and> map_of (buildFileSystem (scenarioConfig (str ''user''))) (str ''/home/user'')
     = Some (Directory [str ''a.txt''] (str ''/home''))
   \<and> homeDeclared (scenarioConfig (str ''user''))
   \<and> map_of (buildFileSystem (scenarioConfig (str ''user''))) (str ''/home/user/a.txt'')
     = Some (File (str ''hello'') (str ''/home/user''))
   \<and> fileNode (scenarioConfig (str ''user'')) (str ''/home/user/a.txt'')
         (File (str ''hello'') (str ''/home/user''))"
proof -
  let ?cfg = "scenarioConfig (str ''user'')"
  have h: "map_of (buildFileSystem ?cfg) (str ''/home/user/sub'')
             = Some (Directory [] (str ''/home/user''))"
    by code_simp
  have nd: "\<not> declaredNode ?cfg (str ''/home/user/sub'') (Directory [] (str ''/home/user''))"
    by code_simp
  have nf: "\<not> fileNode ?cfg (str ''/home/user/sub'') (Directory [] (str ''/home/user''))"
    by code_simp
  have p: "map_of (buildFileSystem ?cfg) (str ''/home/user'')
             = Some (Directory [str ''a.txt''] (str ''/home''))"
    by code_simp
  have hd: "homeDeclared ?cfg" by code_simp
  have f: "map_of (buildFileSystem ?cfg) (str ''/home/user/a.txt'')
             = Some (File (str ''hello'') (str ''/home/user''))"
    by code_simp
  have fn: "fileNode ?cfg (str ''/home/user/a.txt'') (File (str ''hello'') (str ''/home/user''))"
    by code_simp
  from built_nodes_accounted [OF h] nd nf
  have "materializedNode ?cfg (str ''/home/user/sub'') (Directory [] (str ''/home/user''))"
    by blast
  with h p hd f fn show ?thesis by blast
qed

text \<open>
  Claim C3 as the specification states it fails. In the scenario's file system the
  node of \<open>sub\<close> names \<open>/home/user\<close> as its parent, but the child list of
  \<open>/home/user\<close> does not hold \<open>sub\<close>; and the parent \<open>/home\<close> of the home directory
  is not in the mapping.
\<close>

theorem built_parent_missing_child:
  "map_of (buildFileSystem (scenarioConfig (str ''user''))) (str ''/home/user/sub'')
     = Some (Directory [] (str ''/home/user''))
   \<and> map_of (buildFileSystem (scenarioConfig (str ''user''))) (str ''/home/user'')
     = Some (Directory [str ''a.txt''] (str ''/home''))
   \<and> (str ''sub'') \<notin> set [str ''a.txt'']
   \<and> map_of (buildFileSystem (scenarioConfig (str ''user''))) (str ''/home'') = None"
  by code_simp

end
